theory Spec2Isabelle
  imports Main
begin

section \<open>Values of the program\<close>

text \<open>
  The program is one module, \<^verbatim>\<open>src/index.ts\<close>: a startup sequence that reads the
  environment, two HTTP handlers (\<^verbatim>\<open>GET /token\<close>, \<^verbatim>\<open>POST /voice\<close>) and one socket
  handler (\<^verbatim>\<open>objection\<close>). Every handler is modelled as a function from its inputs
  and the document store to the list of events it causes, in order, and the store
  afterwards. What the libraries do (the schema validation and insert of the document
  mapper, the constructor checks of the access token, the catch-all of the HTTP
  framework) is written out as definitions of its own, next to the handler that
  calls it.

  An environment variable, a body field and a completion's content are JavaScript
  values that may be \<^verbatim>\<open>undefined\<close> or \<^verbatim>\<open>null\<close>: they are \<open>string option\<close>.
  \<open>falsy\<close> is JavaScript's \<^verbatim>\<open>!v\<close> on such a value: true of the missing value and of
  the empty string.
\<close>

type_synonym time = nat

definition falsy :: "string option \<Rightarrow> bool" where
  "falsy v = (case v of None \<Rightarrow> True | Some s \<Rightarrow> s = [])"

text \<open>\<^verbatim>\<open>s.startsWith(p)\<close>.\<close>

definition startsWith :: "string \<Rightarrow> string \<Rightarrow> bool" where
  "startsWith s p = (take (length p) s = p)"

text \<open>A template literal prints a missing value as \<^verbatim>\<open>undefined\<close>, or as \<^verbatim>\<open>null\<close>.\<close>

definition show_undefined :: "string option \<Rightarrow> string" where
  "show_undefined v = (case v of None \<Rightarrow> ''undefined'' | Some s \<Rightarrow> s)"

definition show_null :: "string option \<Rightarrow> string" where
  "show_null v = (case v of None \<Rightarrow> ''null'' | Some s \<Rightarrow> s)"

text \<open>Everything that is thrown, or that a promise rejects with.\<close>

datatype error =
    TypeError string
  | RequiredError string
  | ValidationError "string list"
  | DuplicateKey string
  | BufferTimeout
  | ServiceError string
  | ParserError nat
  | InvalidCharacter

subsection \<open>The environment\<close>

record environment =
  MONGO_URI :: "string option"
  TWILIO_ACCOUNT_SID :: "string option"
  TWILIO_AUTH_TOKEN :: "string option"
  TWILIO_API_KEY :: "string option"
  TWILIO_API_SECRET :: "string option"
  TWILIO_APP_SID :: "string option"
  TWILIO_PHONE_NUMBER :: "string option"
  OPENAI_API_KEY :: "string option"
  FRONTEND_URL :: "string option"
  PORT :: "string option"

subsection \<open>HTTP requests and responses\<close>

text \<open>
  The provider posts the webhook as a form, and the form parser runs in extended
  mode (line 28): a key of the parsed body is absent, a text, or (a repeated or
  bracketed key) an array or an object, \<open>Nested\<close>. The handler itself looks at
  \<^verbatim>\<open>To\<close>. \<^verbatim>\<open>CallSid\<close> only goes to the document mapper, which stores a text under
  \<^verbatim>\<open>_id\<close> or rejects the write: it is given as that text, if there is one.
  A body posted as JSON could also hold a number, a boolean or \<^verbatim>\<open>null\<close>; these are
  not modelled.
\<close>

datatype field = Absent | Text string | Nested

record voice_body =
  To :: field
  CallSid :: "string option"

text \<open>
  What was posted, as the body parsers of lines 27 and 28 find it. They stand before
  every handler. \<open>Refused st\<close>: a parser refuses the body (malformed JSON, a body
  over the size limit, too many parameters, an unsupported encoding) and its error
  is answered with the status \<open>st\<close> it carries (400, 413, 415); the handler is not
  called. \<open>No_body\<close>: no parser took the body and \<^verbatim>\<open>req.body\<close> is left undefined.
  \<open>Parsed n k b\<close>: the fields \<open>b\<close> were posted, in a body that has \<open>n\<close> bytes
  besides the texts of \<open>b\<close> (keys, separators, escapes, other fields) and, when it
  is a form, \<open>k\<close> parameters in all.
\<close>

datatype posted = Refused nat | No_body | Parsed nat nat voice_body

record request =
  headers :: "(string \<times> string) list"
  query :: "(string \<times> string) list"
  req_body :: posted

text \<open>
  The routing document: the verbs of a \<^verbatim>\<open>VoiceResponse\<close>. \<^verbatim>\<open>dial(attributes, number)\<close>
  adds one \<^verbatim>\<open>Dial\<close> element with its \<^verbatim>\<open>callerId\<close> attribute and, when a number is
  given, the number as its text.
\<close>

datatype verb = Dial (callerId: "string option") (number: "string option")

type_synonym twiml = "verb list"

datatype payload = Json_token string | Xml twiml | Error_page error

text \<open>
  An answer: \<open>content_type\<close> is the media type of its \<^verbatim>\<open>Content-Type\<close> header (the
  framework appends a charset to it).
\<close>

record http_response =
  status_code :: nat
  content_type :: string
  res_body :: payload

subsection \<open>The two collections\<close>

text \<open>
  \<^verbatim>\<open>callLogSchema\<close> and \<^verbatim>\<open>objectionSchema\<close>. A document is what the handler passed to
  the model's constructor, so a field may be missing until validation has passed.
\<close>

record callLog =
  cl_id :: "string option"
  phoneNumber :: "string option"
  status :: "string option"
  duration :: "nat option"
  cl_timestamp :: time

record objection =
  message :: "string option"
  response :: "string option"
  ob_timestamp :: time

text \<open>
  The store. \<^verbatim>\<open>mongoose.connect\<close> is started at startup and its failure is only
  logged, so the process may run without a connection: \<open>connected\<close>.
\<close>

record world =
  connected :: bool
  callLogs :: "callLog list"
  objections :: "objection list"

subsection \<open>The completion service and the socket\<close>

record chat_message =
  role :: string
  content :: string

record completion_request =
  model :: string
  messages :: "chat_message list"

text \<open>One choice of a completion; \<open>message_content\<close> is \<^verbatim>\<open>choice.message.content\<close>.\<close>

datatype choice = Choice (message_content: "string option")

datatype completion = Rejected error | Resolved "choice list"

type_synonym completion_service = "completion_request \<Rightarrow> completion"

type_synonym socket_id = nat

subsection \<open>Events\<close>

text \<open>
  What a handler does to the outside, in the order it does it. \<open>Emit\<close> is
  \<^verbatim>\<open>socket.emit\<close> on one connection, \<open>Broadcast\<close> is \<^verbatim>\<open>io.emit\<close> to all of them;
  \<open>Save\<close> is a call of \<^verbatim>\<open>save()\<close> on a document of the named model.
\<close>

datatype event =
    ConsoleLog string
  | ConsoleError string "error option"
  | Respond http_response
  | Save string
  | CompletionCall completion_request
  | Emit socket_id string "string option"
  | Broadcast string "string option"

text \<open>The responses sent, the payloads emitted as \<^verbatim>\<open>suggestion\<close>, the outside calls.\<close>

fun responses :: "event list \<Rightarrow> http_response list" where
  "responses [] = []"
| "responses (Respond r # es) = r # responses es"
| "responses (_ # es) = responses es"

fun suggestions :: "event list \<Rightarrow> (socket_id \<times> string option) list" where
  "suggestions [] = []"
| "suggestions (Emit s n p # es) =
     (if n = ''suggestion'' then (s, p) # suggestions es else suggestions es)"
| "suggestions (_ # es) = suggestions es"

fun broadcasts :: "event list \<Rightarrow> (string \<times> string option) list" where
  "broadcasts [] = []"
| "broadcasts (Broadcast n p # es) = (n, p) # broadcasts es"
| "broadcasts (_ # es) = broadcasts es"

fun outside_calls :: "event list \<Rightarrow> event list" where
  "outside_calls [] = []"
| "outside_calls (Save m # es) = Save m # outside_calls es"
| "outside_calls (CompletionCall r # es) = CompletionCall r # outside_calls es"
| "outside_calls (_ # es) = outside_calls es"

section \<open>Startup\<close>

text \<open>
  Lines 11 to 59 and 173 to 177. The module constants are the environment variables
  themselves (\<^verbatim>\<open>process.env.X as string\<close> is a cast, not a check), so the handlers
  below read the environment. \<^verbatim>\<open>process.exit(1)\<close> ends the startup at once.
  \<^verbatim>\<open>server.listen(p)\<close> is reached when every check has passed. It throws when \<open>p\<close>
  is a decimal number over 65535, and the exception, which nothing catches, ends the
  process with the exit code 1. \<open>Listening p\<close> stands for the call having gone
  through. A \<^verbatim>\<open>PORT\<close> in another spelling than decimal digits is passed on as it is,
  and whether the port is free is not modelled.
\<close>

datatype startup_result = Exit nat | Listening string

definition port :: "environment \<Rightarrow> string" where
  "port env = (if falsy (PORT env) then ''3001'' else show_undefined (PORT env))"

definition digit :: "char \<Rightarrow> nat option" where
  "digit ch =
     (if ch = CHR ''0'' then Some 0 else if ch = CHR ''1'' then Some 1
      else if ch = CHR ''2'' then Some 2 else if ch = CHR ''3'' then Some 3
      else if ch = CHR ''4'' then Some 4 else if ch = CHR ''5'' then Some 5
      else if ch = CHR ''6'' then Some 6 else if ch = CHR ''7'' then Some 7
      else if ch = CHR ''8'' then Some 8 else if ch = CHR ''9'' then Some 9
      else None)"

fun decimal_from :: "nat \<Rightarrow> string \<Rightarrow> nat option" where
  "decimal_from n [] = Some n"
| "decimal_from n (ch # cs) =
     (case digit ch of None \<Rightarrow> None | Some d \<Rightarrow> decimal_from (10 * n + d) cs)"

definition decimal :: "string \<Rightarrow> nat option" where
  "decimal s = (if s = [] then None else decimal_from 0 s)"

definition listen_throws :: "string \<Rightarrow> bool" where
  "listen_throws p = (case decimal p of None \<Rightarrow> False | Some n \<Rightarrow> 65535 < n)"

definition startup :: "environment \<Rightarrow> event list \<times> startup_result" where
  "startup env =
     (if falsy (MONGO_URI env)
      then ([ConsoleError ''MongoDB URI is missing in .env'' None], Exit 1)
      else if falsy (TWILIO_ACCOUNT_SID env) \<or> falsy (TWILIO_AUTH_TOKEN env)
              \<or> falsy (TWILIO_PHONE_NUMBER env)
      then ([ConsoleError ''Missing Twilio credentials in .env'' None], Exit 1)
      else if falsy (OPENAI_API_KEY env)
      then ([ConsoleError ''OpenAI API key is missing in .env'' None], Exit 1)
      else if listen_throws (port env) then ([], Exit 1)
      else ([ConsoleLog (''Backend server running on port '' @ port env)],
            Listening (port env)))"

section \<open>The HTTP framework\<close>

text \<open>
  An exception thrown by a route handler before it has answered is caught by the
  framework, which answers 500 with an error page.
\<close>

definition error_response :: "error \<Rightarrow> http_response" where
  "error_response e =
     \<lparr>status_code = 500, content_type = ''text/html'', res_body = Error_page e\<rparr>"

text \<open>The error of a body parser carries its own status, and is answered with it.\<close>

definition parser_response :: "nat \<Rightarrow> http_response" where
  "parser_response st =
     \<lparr>status_code = st, content_type = ''text/html'', res_body = Error_page (ParserError st)\<rparr>"

text \<open>
  Lines 27 and 28: the parsers keep their defaults, a limit of 100kb (102400 bytes)
  on the body and of 1000 on the parameters of a form; a body over either is
  answered 413. Otherwise the outcome is as posted: the status of a refusal, or
  \<^verbatim>\<open>req.body\<close>.
\<close>

definition body_limit :: nat where
  "body_limit = 102400"

definition parameter_limit :: nat where
  "parameter_limit = 1000"

definition text_of :: "field \<Rightarrow> string option" where
  "text_of f = (case f of Text s \<Rightarrow> Some s | _ \<Rightarrow> None)"

definition text_bytes :: "voice_body \<Rightarrow> nat" where
  "text_bytes b = length (case text_of (To b) of None \<Rightarrow> [] | Some s \<Rightarrow> s)
                + length (case CallSid b of None \<Rightarrow> [] | Some s \<Rightarrow> s)"

definition body_parsers :: "request \<Rightarrow> nat + voice_body option" where
  "body_parsers req =
     (case req_body req of
        Refused st \<Rightarrow> Inl st
      | No_body \<Rightarrow> Inr None
      | Parsed n k b \<Rightarrow>
          if body_limit < text_bytes b + n \<or> parameter_limit < k then Inl 413
          else Inr (Some b))"

section \<open>Token issuer\<close>

record voiceGrant =
  outgoingApplicationSid :: "string option"
  incomingAllow :: bool

record accessToken =
  accountSid :: string
  keySid :: string
  secret :: string
  identity :: string
  ttl :: nat
  grants :: "voiceGrant list"

text \<open>
  \<^verbatim>\<open>new AccessToken(accountSid, keySid, secret, {identity, ttl})\<close>: the constructor
  throws when one of its three credentials is missing or empty.
\<close>

definition new_AccessToken ::
  "string option \<Rightarrow> string option \<Rightarrow> string option \<Rightarrow> string \<Rightarrow> nat \<Rightarrow> error + accessToken" where
  "new_AccessToken a k s ident t =
     (if falsy a then Inl (RequiredError ''accountSid is required'')
      else if falsy k then Inl (RequiredError ''keySid is required'')
      else if falsy s then Inl (RequiredError ''secret is required'')
      else Inr \<lparr>accountSid = show_undefined a, keySid = show_undefined k,
                secret = show_undefined s, identity = ident, ttl = t, grants = []\<rparr>)"

definition addGrant :: "accessToken \<Rightarrow> voiceGrant \<Rightarrow> accessToken" where
  "addGrant token g = token\<lparr>grants := grants token @ [g]\<rparr>"

text \<open>
  \<^verbatim>\<open>VoiceGrant.toPayload()\<close>: what a grant puts into the token. Incoming calls are
  allowed in it when \<^verbatim>\<open>incomingAllow\<close> is true; the outgoing application is in it
  only when \<^verbatim>\<open>outgoingApplicationSid\<close> is neither missing nor empty.
\<close>

record voice_payload =
  incoming_allow :: bool
  outgoing_application_sid :: "string option"

definition toPayload :: "voiceGrant \<Rightarrow> voice_payload" where
  "toPayload g =
     \<lparr>incoming_allow = incomingAllow g,
      outgoing_application_sid =
        (if falsy (outgoingApplicationSid g) then None else outgoingApplicationSid g)\<rparr>"

text \<open>
  \<^verbatim>\<open>toJwt()\<close>: the claims of the token, issued at the clock's second, expiring
  \<open>ttl\<close> seconds later, in the compact serialisation: header, claims and
  signature, joined by dots. The token's identifier is made of the key and the
  second of issue (\<open>jti\<close>). The grants are stored under their key, and every grant
  here has the key \<^verbatim>\<open>voice\<close>: the last one added is the one in the token. The
  encoding of the header and of the claims and the keyed hash are parameters
  (\<open>jws\<close>).
\<close>

record jwt_claims =
  jti :: "string \<times> nat"
  iss :: string
  sub :: string
  iat :: nat
  exp :: nat
  grant_identity :: string
  grant_voice :: "voice_payload option"

definition grants_payload :: "voiceGrant list \<Rightarrow> voice_payload option" where
  "grants_payload gs = (case rev gs of [] \<Rightarrow> None | g # _ \<Rightarrow> Some (toPayload g))"

record jws =
  header_segment :: string
  claims_segment :: "jwt_claims \<Rightarrow> string"
  signature_segment :: "string \<Rightarrow> string \<Rightarrow> string"

definition claims_of :: "accessToken \<Rightarrow> time \<Rightarrow> jwt_claims" where
  "claims_of token now =
     \<lparr>jti = (keySid token, now div 1000),
      iss = keySid token, sub = accountSid token, iat = now div 1000,
      exp = now div 1000 + ttl token, grant_identity = identity token,
      grant_voice = grants_payload (grants token)\<rparr>"

definition toJwt :: "jws \<Rightarrow> accessToken \<Rightarrow> time \<Rightarrow> string" where
  "toJwt c token now =
     (let signing_input = header_segment c @ ''.'' @ claims_segment c (claims_of token now)
      in signing_input @ ''.'' @ signature_segment c (secret token) signing_input)"

text \<open>
  Lines 82 to 103, up to \<^verbatim>\<open>token.addGrant\<close>: the token the handler builds, or the
  exception of the constructor.
\<close>

definition build_token :: "environment \<Rightarrow> error + accessToken" where
  "build_token env =
     (let voiceGrant = \<lparr>outgoingApplicationSid = TWILIO_APP_SID env, incomingAllow = True\<rparr>
      in case new_AccessToken (TWILIO_ACCOUNT_SID env) (TWILIO_API_KEY env)
                (TWILIO_API_SECRET env) ''caller'' 3600 of
           Inl e \<Rightarrow> Inl e
         | Inr token \<Rightarrow> Inr (addGrant token voiceGrant))"

text \<open>
  \<^verbatim>\<open>app.get('/token', (req, res) => ...)\<close>, once the framework calls it. The handler
  is given the request and the store as every handler is; the clock is read by
  \<^verbatim>\<open>toJwt\<close>.
\<close>

definition get_token ::
  "jws \<Rightarrow> environment \<Rightarrow> time \<Rightarrow> request \<Rightarrow> world \<Rightarrow> event list \<times> world" where
  "get_token c env now req w =
     (case build_token env of
        Inl e \<Rightarrow> ([Respond (error_response e)], w)
      | Inr token \<Rightarrow>
          ([Respond \<lparr>status_code = 200, content_type = ''application/json'',
                     res_body = Json_token (toJwt c token now)\<rparr>], w))"

section \<open>The document mapper\<close>

text \<open>
  \<^verbatim>\<open>save()\<close> on a document made by \<^verbatim>\<open>new Model(...)\<close>. The document is validated
  against its schema first: a \<^verbatim>\<open>required\<close> path of type String fails when its value
  is missing or the empty string, and the promise rejects with the paths that failed.
  A valid document waits for the connection (the buffered operation times out
  without one) and is then inserted. The collection of call logs is keyed by
  \<^verbatim>\<open>_id\<close>, which the handler supplies: an insert under an \<^verbatim>\<open>_id\<close> that is already
  there is rejected. Objections get a fresh \<^verbatim>\<open>_id\<close> each, so nothing rejects them.
\<close>

definition missing_paths :: "(string \<times> string option) list \<Rightarrow> string list" where
  "missing_paths ps = map fst (filter (\<lambda>pv. falsy (snd pv)) ps)"

definition validate_callLog :: "callLog \<Rightarrow> error option" where
  "validate_callLog doc =
     (case missing_paths [(''_id'', cl_id doc), (''phoneNumber'', phoneNumber doc),
                          (''status'', status doc)] of
        [] \<Rightarrow> None
      | p # ps \<Rightarrow> Some (ValidationError (p # ps)))"

definition validate_objection :: "objection \<Rightarrow> error option" where
  "validate_objection doc =
     (case missing_paths [(''message'', message doc), (''response'', response doc)] of
        [] \<Rightarrow> None
      | p # ps \<Rightarrow> Some (ValidationError (p # ps)))"

definition save_callLog :: "callLog \<Rightarrow> world \<Rightarrow> error + world" where
  "save_callLog doc w =
     (case validate_callLog doc of
        Some e \<Rightarrow> Inl e
      | None \<Rightarrow>
          if connected w
          then (if cl_id doc \<in> set (map cl_id (callLogs w))
                then Inl (DuplicateKey (show_undefined (cl_id doc)))
                else Inr (w\<lparr>callLogs := callLogs w @ [doc]\<rparr>))
          else Inl BufferTimeout)"

definition save_objection :: "objection \<Rightarrow> world \<Rightarrow> error + world" where
  "save_objection doc w =
     (case validate_objection doc of
        Some e \<Rightarrow> Inl e
      | None \<Rightarrow>
          if connected w
          then Inr (w\<lparr>objections := objections w @ [doc]\<rparr>)
          else Inl BufferTimeout)"

text \<open>The call logs stored under one identifier.\<close>

definition callLogs_with_id :: "string \<Rightarrow> world \<Rightarrow> callLog list" where
  "callLogs_with_id c w = filter (\<lambda>d. cl_id d = Some c) (callLogs w)"

section \<open>Call router\<close>

text \<open>Line 110: \<^verbatim>\<open>!To || To.startsWith('client:')\<close>, for a \<^verbatim>\<open>To\<close> that is a text or missing.\<close>

definition invalid_To :: "string option \<Rightarrow> bool" where
  "invalid_To to = (case to of None \<Rightarrow> True | Some s \<Rightarrow> s = [] \<or> startsWith s ''client:'')"

text \<open>
  Line 128: \<^verbatim>\<open>response.dial({ callerId }, To)\<close>. The builder of the document may
  refuse a text for the characters in it, and then throws. Which texts it takes is
  the parameter \<open>legal\<close>; a missing caller-id or number is left out of the element.
\<close>

definition accepts :: "(string \<Rightarrow> bool) \<Rightarrow> string option \<Rightarrow> bool" where
  "accepts legal v = (case v of None \<Rightarrow> True | Some s \<Rightarrow> legal s)"

definition dial :: "(string \<Rightarrow> bool) \<Rightarrow> string option \<Rightarrow> string option \<Rightarrow> error + verb" where
  "dial legal cid num =
     (if accepts legal cid \<and> accepts legal num then Inr (Dial cid num)
      else Inl InvalidCharacter)"

text \<open>
  Lines 107 to 131 for a \<^verbatim>\<open>To\<close> that is a text or missing: the events of the
  handler's own run, which ends with the answer, and the document whose \<^verbatim>\<open>save()\<close>
  it has started and not awaited. When line 128 throws, the answer is the
  framework's; the save of line 123 has been started by then.
\<close>

definition route ::
  "(string \<Rightarrow> bool) \<Rightarrow> environment \<Rightarrow> time \<Rightarrow> string option \<Rightarrow> string option
     \<Rightarrow> event list \<times> callLog" where
  "route legal env now to sid =
     (let callLog = \<lparr>cl_id = sid, phoneNumber = to, status = Some ''initiated'',
                      duration = None, cl_timestamp = now\<rparr>;
          res = (case dial legal (TWILIO_PHONE_NUMBER env) to of
                   Inl e \<Rightarrow> error_response e
                 | Inr v \<Rightarrow> \<lparr>status_code = 200, content_type = ''text/xml'',
                             res_body = Xml [v]\<rparr>)
      in ((if invalid_To to then [ConsoleError ''Invalid 'To' number.'' None] else []) @
          [ConsoleLog (''New Call Request: From '' @ show_undefined (TWILIO_PHONE_NUMBER env)
                       @ '' to '' @ show_undefined to),
           Save ''CallLog'',
           Respond res],
          callLog))"

text \<open>
  \<^verbatim>\<open>app.post('/voice', (req, res) => ...)\<close>, called with \<^verbatim>\<open>req.body\<close>. Line 108 throws
  when \<^verbatim>\<open>req.body\<close> is undefined. A nested \<^verbatim>\<open>To\<close> is truthy and has no
  \<^verbatim>\<open>startsWith\<close>: the condition of line 110 throws before anything else is done.
\<close>

definition voice_handler ::
  "(string \<Rightarrow> bool) \<Rightarrow> environment \<Rightarrow> time \<Rightarrow> voice_body option
     \<Rightarrow> error + (event list \<times> callLog)" where
  "voice_handler legal env now body =
     (case body of
        None \<Rightarrow> Inl (TypeError ''Cannot destructure property 'To' of 'req.body' as it is undefined.'')
      | Some b \<Rightarrow>
          (case To b of
             Nested \<Rightarrow> Inl (TypeError ''To.startsWith is not a function'')
           | Absent \<Rightarrow> Inr (route legal env now None (CallSid b))
           | Text s \<Rightarrow> Inr (route legal env now (Some s) (CallSid b))))"

text \<open>Lines 123 to 125: the \<^verbatim>\<open>then\<close> and the \<^verbatim>\<open>catch\<close> of the promise of \<^verbatim>\<open>save()\<close>.\<close>

definition callLog_settled :: "callLog \<Rightarrow> world \<Rightarrow> event list \<times> world" where
  "callLog_settled doc w =
     (case save_callLog doc w of
        Inr w' \<Rightarrow>
          ([ConsoleLog (''Inserted data in MongoDB for '' @ show_undefined (phoneNumber doc))], w')
      | Inl e \<Rightarrow> ([ConsoleError '' Failed to save call log:'' (Some e)], w))"

text \<open>
  One request to \<^verbatim>\<open>POST /voice\<close>, from its arrival until its write has settled: the
  body parsers, then the handler, then the promise of the save.
\<close>

definition post_voice ::
  "(string \<Rightarrow> bool) \<Rightarrow> environment \<Rightarrow> time \<Rightarrow> request \<Rightarrow> world \<Rightarrow> event list \<times> world" where
  "post_voice legal env now req w =
     (case body_parsers req of
        Inl st \<Rightarrow> ([Respond (parser_response st)], w)
      | Inr body \<Rightarrow>
          (case voice_handler legal env now body of
             Inl e \<Rightarrow> ([Respond (error_response e)], w)
           | Inr (evs, doc) \<Rightarrow>
               (case callLog_settled doc w of (evs', w') \<Rightarrow> (evs @ evs', w'))))"

section \<open>Objection bridge\<close>

definition completion_request_for :: "string \<Rightarrow> completion_request" where
  "completion_request_for m =
     \<lparr>model = ''gpt-3.5-turbo'',
      messages =
        [\<lparr>role = ''system'',
          content = ''You are an expert sales assistant. Provide concise, persuasive responses to sales objections.''\<rparr>,
         \<lparr>role = ''user'', content = ''How should I handle this objection? '' @ m\<rparr>]\<rparr>"

text \<open>Lines 160 to 163.\<close>

definition catch_block :: "socket_id \<Rightarrow> error \<Rightarrow> event list" where
  "catch_block sock e =
     [ConsoleError ''Failed to generate AI suggestion:'' (Some e),
      Emit sock ''suggestion'' (Some ''Failed to generate suggestion.'')]"

text \<open>Line 151: \<^verbatim>\<open>response.choices[0].message.content\<close>; no first choice, and it throws.\<close>

definition first_content :: "choice list \<Rightarrow> error + string option" where
  "first_content choices =
     (case choices of
        [] \<Rightarrow> Inl (TypeError ''Cannot read properties of undefined (reading 'message')'')
      | ch # _ \<Rightarrow> Inr (message_content ch))"

text \<open>
  \<^verbatim>\<open>socket.on('objection', async (message) => ...)\<close> on the connection \<open>sock\<close>, from
  the arrival of the message until the handler's promise has settled. The completion
  service is a parameter: what it answers to a request. Both awaited promises are
  taken to settle.
\<close>

definition on_objection ::
  "completion_service \<Rightarrow> time \<Rightarrow> socket_id \<Rightarrow> string \<Rightarrow> world \<Rightarrow> event list \<times> world" where
  "on_objection service now sock m w =
     (let request = completion_request_for m;
          called = [ConsoleLog (''Processing Objection: '' @ m), CompletionCall request]
      in case service request of
           Rejected e \<Rightarrow> (called @ catch_block sock e, w)
         | Resolved choices \<Rightarrow>
             (case first_content choices of
                Inl e \<Rightarrow> (called @ catch_block sock e, w)
              | Inr suggestion \<Rightarrow>
                  (let objection = \<lparr>message = Some m, response = suggestion, ob_timestamp = now\<rparr>;
                       saving = called @ [ConsoleLog ('' AI Suggestion: '' @ show_null suggestion),
                                          Save ''Objection'']
                   in case save_objection objection w of
                        Inl e \<Rightarrow> (saving @ catch_block sock e, w)
                      | Inr w' \<Rightarrow> (saving @ [Emit sock ''suggestion'' suggestion], w'))))"

section \<open>Sample inputs\<close>

text \<open>
  A complete environment, an empty connected store, a \<^verbatim>\<open>POST /voice\<close> request with
  given fields, a token serialisation and a document builder, for the concrete runs
  below.
\<close>

definition sample_env :: environment where
  "sample_env =
     \<lparr>MONGO_URI = Some ''mongodb://localhost/sales'', TWILIO_ACCOUNT_SID = Some ''AC1'',
      TWILIO_AUTH_TOKEN = Some ''auth'', TWILIO_API_KEY = Some ''SK1'',
      TWILIO_API_SECRET = Some ''s3cret'', TWILIO_APP_SID = Some ''AP1'',
      TWILIO_PHONE_NUMBER = Some ''+15550001111'', OPENAI_API_KEY = Some ''sk-1'',
      FRONTEND_URL = None, PORT = None\<rparr>"

definition sample_store :: world where
  "sample_store = \<lparr>connected = True, callLogs = [], objections = []\<rparr>"

definition voice_request :: "field \<Rightarrow> string option \<Rightarrow> request" where
  "voice_request to sid =
     \<lparr>headers = [], query = [], req_body = Parsed 16 2 \<lparr>To = to, CallSid = sid\<rparr>\<rparr>"

text \<open>A builder that takes every text without the control character 1.\<close>

definition sample_legal :: "string \<Rightarrow> bool" where
  "sample_legal s = (CHR 0x01 \<notin> set s)"

definition sample_jws :: jws where
  "sample_jws = \<lparr>header_segment = ''h'', claims_segment = grant_identity,
                  signature_segment = (\<lambda>key input. key)\<rparr>"

section \<open>Properties\<close>

lemmas token_defs = get_token_def build_token_def new_AccessToken_def addGrant_def

lemmas voice_defs = post_voice_def body_parsers_def body_limit_def parameter_limit_def
  text_bytes_def text_of_def
  voice_handler_def route_def dial_def accepts_def callLog_settled_def
  save_callLog_def validate_callLog_def missing_paths_def

lemmas objection_defs = on_objection_def catch_block_def first_content_def
  save_objection_def validate_objection_def missing_paths_def

lemmas sample_defs = sample_env_def sample_store_def voice_request_def sample_jws_def

lemma no_record_iff:
  "callLogs_with_id c w = [] \<longleftrightarrow> Some c \<notin> set (map cl_id (callLogs w))"
  by (force simp: callLogs_with_id_def filter_empty_conv)

subsection \<open>Startup and the token issuer\<close>

text \<open>
  Claim C2. The claim: when a signing credential (the API key, the API secret or the
  outbound application identifier) is absent from the environment, the process
  refuses to start. The startup sequence reads the three variables (lines 44 to 46)
  and checks none of them: the check of line 49 covers the account identifier, the
  auth credential and the phone number only. So the outcome of the startup does not
  depend on them, and an environment without them, complete otherwise, starts and
  listens; there every \<^verbatim>\<open>GET /token\<close> fails in the constructor of the token and is
  answered 500.
\<close>

theorem startup_ignores_signing_credentials:
  "startup (env\<lparr>TWILIO_API_KEY := k, TWILIO_API_SECRET := s, TWILIO_APP_SID := a\<rparr>) = startup env
   \<and> snd (startup (sample_env\<lparr>TWILIO_API_KEY := None, TWILIO_API_SECRET := None,
                                TWILIO_APP_SID := None\<rparr>)) = Listening ''3001''
   \<and> fst (get_token sample_jws
            (sample_env\<lparr>TWILIO_API_KEY := None, TWILIO_API_SECRET := None, TWILIO_APP_SID := None\<rparr>)
            1700000000000 (voice_request Absent None) sample_store)
       = [Respond \<lparr>status_code = 500, content_type = ''text/html'',
                   res_body = Error_page (RequiredError ''keySid is required'')\<rparr>]"
  by (simp add: sample_defs startup_def falsy_def port_def listen_throws_def decimal_def
      digit_def token_defs error_response_def)

text \<open>
  Claim C7. After a startup that went through, with the API key \<open>key\<close>, the API
  secret \<open>sec\<close> and the application identifier \<open>app\<close> present and not empty,
  every \<^verbatim>\<open>GET /token\<close> is answered 200 with one token, and the token sent is exactly
  the serialisation, signed with \<open>sec\<close>, of these claims: the identity \<^verbatim>\<open>caller\<close>,
  issued at the second of the clock and expiring exactly 3600 seconds later, with
  the one voice grant that allows incoming calls and outgoing calls to \<open>app\<close>. That
  string is not empty. The handler saves nothing, calls no outside service, and
  leaves the store as it was.
\<close>

theorem token_issued:
  assumes "snd (startup env) = Listening p"
    and "TWILIO_ACCOUNT_SID env = Some acct"
    and "TWILIO_API_KEY env = Some key" and "key \<noteq> []"
    and "TWILIO_API_SECRET env = Some sec" and "sec \<noteq> []"
    and "TWILIO_APP_SID env = Some app" and "app \<noteq> []"
  shows "(let claims = \<lparr>jti = (key, now div 1000), iss = key, sub = acct,
                          iat = now div 1000, exp = now div 1000 + 3600,
                          grant_identity = ''caller'',
                          grant_voice = Some \<lparr>incoming_allow = True,
                                              outgoing_application_sid = Some app\<rparr>\<rparr>;
              signing_input = header_segment c @ ''.'' @ claims_segment c claims;
              token = signing_input @ ''.'' @ signature_segment c sec signing_input
          in get_token c env now req w =
               ([Respond \<lparr>status_code = 200, content_type = ''application/json'',
                          res_body = Json_token token\<rparr>], w)
             \<and> token \<noteq> []
             \<and> outside_calls (fst (get_token c env now req w)) = [])"
proof -
  from assms(1,2) have "acct \<noteq> []"
    by (auto simp: startup_def falsy_def split: if_splits)
  with assms(2-8) show ?thesis
    by (simp add: token_defs claims_of_def toJwt_def grants_payload_def toPayload_def
        falsy_def show_undefined_def Let_def)
qed

theorem token_issued_witness:
  "get_token sample_jws sample_env 1700000000000 (voice_request Absent None) sample_store =
     ([Respond \<lparr>status_code = 200, content_type = ''application/json'',
                res_body = Json_token ''h.caller.s3cret''\<rparr>], sample_store)"
  using token_issued [where env = sample_env and p = "''3001''" and acct = "''AC1''"
      and key = "''SK1''" and sec = "''s3cret''" and app = "''AP1''" and c = sample_jws
      and now = 1700000000000 and req = "voice_request Absent None" and w = sample_store]
  by (simp add: sample_defs startup_def falsy_def port_def listen_throws_def decimal_def
      digit_def Let_def)

text \<open>
  Claim C9. Nothing of the request reaches the token: under one environment and one
  clock reading, two calls of the \<^verbatim>\<open>/token\<close> handler cause the same events (the same
  answer) whatever the two requests and the two stores are, and neither changes its
  store.
\<close>

theorem token_independent_of_request:
  "fst (get_token c env now req1 w1) = fst (get_token c env now req2 w2)
   \<and> snd (get_token c env now req1 w1) = w1"
  by (simp add: get_token_def split: sum.splits)

theorem token_independent_of_request_witness:
  "fst (get_token sample_jws sample_env 1700000000000 (voice_request Absent None) sample_store)
   = fst (get_token sample_jws sample_env 1700000000000
            (voice_request (Text ''+15551234567'') (Some ''CA123''))
            (sample_store\<lparr>connected := False\<rparr>))"
  using token_independent_of_request [of sample_jws sample_env 1700000000000
      "voice_request Absent None" sample_store
      "voice_request (Text ''+15551234567'') (Some ''CA123'')" "sample_store\<lparr>connected := False\<rparr>"]
  by simp

subsection \<open>Call router\<close>

text \<open>
  Claim C4, as amended. The claim: every valid request creates its call log. The
  write is not awaited and its failure is only logged, so on a store without a
  connection a valid request is answered 200 and no call log appears. What holds:
  when the body parsers hand the fields to the handler, \<^verbatim>\<open>To\<close> is a non-empty text
  without the prefix \<^verbatim>\<open>client:\<close>, the call identifier \<open>c\<close> is a non-empty text, and
  the store is connected and holds no call log under \<open>c\<close>, then one call log is
  added, with identifier \<open>c\<close>, \<^verbatim>\<open>phoneNumber\<close> equal to \<^verbatim>\<open>To\<close> and status
  \<^verbatim>\<open>initiated\<close>; and when the builder of the document takes the configured phone
  number and \<^verbatim>\<open>To\<close>, the one answer sent is 200, \<^verbatim>\<open>text/xml\<close>, a document with a
  single dial instruction whose number is \<^verbatim>\<open>To\<close> and whose caller-id is the
  configured \<^verbatim>\<open>TWILIO_PHONE_NUMBER\<close>.
\<close>

theorem valid_request_logged_and_routed:
  assumes "body_parsers req = Inr (Some b)"
    and "To b = Text t" and "t \<noteq> []" and "\<not> startsWith t ''client:''"
    and "CallSid b = Some c" and "c \<noteq> []"
    and "callLogs_with_id c w = []" and "connected w"
  shows "callLogs (snd (post_voice legal env now req w)) =
           callLogs w @ [\<lparr>cl_id = Some c, phoneNumber = Some t, status = Some ''initiated'',
                           duration = None, cl_timestamp = now\<rparr>]
       \<and> (accepts legal (TWILIO_PHONE_NUMBER env) \<and> legal t \<longrightarrow>
            responses (fst (post_voice legal env now req w)) =
              [\<lparr>status_code = 200, content_type = ''text/xml'',
                res_body = Xml [Dial (TWILIO_PHONE_NUMBER env) (Some t)]\<rparr>])"
  using assms by (simp add: voice_defs falsy_def invalid_To_def Let_def no_record_iff)

theorem valid_request_logged_and_routed_witness:
  "callLogs (snd (post_voice sample_legal sample_env 1
                    (voice_request (Text ''+15551234567'') (Some ''CA123'')) sample_store)) =
     [\<lparr>cl_id = Some ''CA123'', phoneNumber = Some ''+15551234567'', status = Some ''initiated'',
       duration = None, cl_timestamp = 1\<rparr>]
   \<and> responses (fst (post_voice sample_legal sample_env 1
                        (voice_request (Text ''+15551234567'') (Some ''CA123'')) sample_store)) =
     [\<lparr>status_code = 200, content_type = ''text/xml'',
       res_body = Xml [Dial (Some ''+15550001111'') (Some ''+15551234567'')]\<rparr>]"
  using valid_request_logged_and_routed [of "voice_request (Text ''+15551234567'') (Some ''CA123'')"
      "\<lparr>To = Text ''+15551234567'', CallSid = Some ''CA123''\<rparr>"
      "''+15551234567''" "''CA123''" sample_store sample_legal sample_env 1]
  by (simp add: sample_defs sample_legal_def startsWith_def callLogs_with_id_def
      body_parsers_def body_limit_def parameter_limit_def text_bytes_def text_of_def accepts_def)

text \<open>
  The run that refutes claim C4 as it is stated: the valid request for \<^verbatim>\<open>CA123\<close>, on a
  store without a connection, is answered 200 and no call log is created.
\<close>

theorem valid_request_not_logged_without_connection:
  "callLogs (snd (post_voice sample_legal sample_env 1
      (voice_request (Text ''+15551234567'') (Some ''CA123''))
      (sample_store\<lparr>connected := False\<rparr>))) = []
   \<and> map status_code (responses (fst (post_voice sample_legal sample_env 1
      (voice_request (Text ''+15551234567'') (Some ''CA123''))
      (sample_store\<lparr>connected := False\<rparr>)))) = [200]"
  by (simp add: sample_defs sample_legal_def voice_defs falsy_def invalid_To_def startsWith_def)

text \<open>
  Claim C1, as amended. The claim: the second of two requests with one call
  identifier overwrites the call log of the first. It does not: the call log of the
  second is a new document, its \<^verbatim>\<open>save()\<close> is an insert, and the insert under an
  \<^verbatim>\<open>_id\<close> that is there is rejected; the rejection is logged and swallowed (line 125).
  What holds, for two requests with the call identifier \<open>c\<close> that the body parsers
  hand to the handler, when the first has stored its call log (its \<^verbatim>\<open>To\<close> a non-empty
  text, the store connected and without a call log under \<open>c\<close>): whatever the
  \<^verbatim>\<open>To\<close> of the second is, the second leaves the store exactly as the first left it,
  so exactly one call log with that identifier exists after both, and it is the
  first request's. When the \<^verbatim>\<open>To\<close> of the second is a non-empty text as well, its
  insert is attempted and rejected because the identifier is there (the duplicate
  key error), that rejection is the last thing logged, and the caller does not see
  it: with texts that the builder of the document takes, the answer is the 200
  dial document for the second \<^verbatim>\<open>To\<close>.
\<close>

theorem duplicate_CallSid_keeps_first_record:
  assumes "body_parsers r1 = Inr (Some b1)" and "body_parsers r2 = Inr (Some b2)"
    and "CallSid b1 = Some c" and "CallSid b2 = Some c" and "c \<noteq> []"
    and "To b1 = Text t" and "t \<noteq> []"
    and "connected w" and "callLogs_with_id c w = []"
  shows "callLogs_with_id c (snd (post_voice legal env n2 r2 (snd (post_voice legal env n1 r1 w)))) =
           [\<lparr>cl_id = Some c, phoneNumber = Some t, status = Some ''initiated'',
             duration = None, cl_timestamp = n1\<rparr>]
       \<and> snd (post_voice legal env n2 r2 (snd (post_voice legal env n1 r1 w))) =
           snd (post_voice legal env n1 r1 w)
       \<and> (\<forall>t2. To b2 = Text t2 \<and> t2 \<noteq> [] \<longrightarrow>
            Save ''CallLog'' \<in> set (fst (post_voice legal env n2 r2 (snd (post_voice legal env n1 r1 w))))
            \<and> last (fst (post_voice legal env n2 r2 (snd (post_voice legal env n1 r1 w)))) =
                ConsoleError '' Failed to save call log:'' (Some (DuplicateKey c))
            \<and> (accepts legal (TWILIO_PHONE_NUMBER env) \<and> legal t2 \<longrightarrow>
                 responses (fst (post_voice legal env n2 r2 (snd (post_voice legal env n1 r1 w)))) =
                   [\<lparr>status_code = 200, content_type = ''text/xml'',
                     res_body = Xml [Dial (TWILIO_PHONE_NUMBER env) (Some t2)]\<rparr>]))"
proof -
  let ?d = "\<lparr>cl_id = Some c, phoneNumber = Some t, status = Some ''initiated'',
             duration = None, cl_timestamp = n1\<rparr>"
  let ?w1 = "w\<lparr>callLogs := callLogs w @ [?d]\<rparr>"
  have fresh: "Some c \<notin> set (map cl_id (callLogs w))"
    using assms(9) by (simp add: no_record_iff)
  have first: "snd (post_voice legal env n1 r1 w) = ?w1"
    using assms(1,3,5,6,7,8) fresh by (simp add: voice_defs falsy_def Let_def)
  have one: "callLogs_with_id c ?w1 = [?d]"
    using assms(9) by (simp add: callLogs_with_id_def)
  have second: "snd (post_voice legal env n2 r2 ?w1) = ?w1"
    using assms(2,4,5,8)
    by (cases "To b2") (simp_all add: voice_defs falsy_def Let_def)
  have rejected:
    "Save ''CallLog'' \<in> set (fst (post_voice legal env n2 r2 ?w1))
     \<and> last (fst (post_voice legal env n2 r2 ?w1)) =
         ConsoleError '' Failed to save call log:'' (Some (DuplicateKey c))
     \<and> (accepts legal (TWILIO_PHONE_NUMBER env) \<and> legal t2 \<longrightarrow>
          responses (fst (post_voice legal env n2 r2 ?w1)) =
            [\<lparr>status_code = 200, content_type = ''text/xml'',
              res_body = Xml [Dial (TWILIO_PHONE_NUMBER env) (Some t2)]\<rparr>])"
    if "To b2 = Text t2" and "t2 \<noteq> []" for t2
    using that assms(2,4,5,8)
    by (simp add: voice_defs falsy_def show_undefined_def Let_def)
  show ?thesis using one second rejected by (simp add: first)
qed

theorem duplicate_CallSid_keeps_first_record_witness:
  "post_voice sample_legal sample_env 2 (voice_request (Text ''+15557654321'') (Some ''CA123''))
     (snd (post_voice sample_legal sample_env 1
             (voice_request (Text ''+15551234567'') (Some ''CA123'')) sample_store)) =
     ([ConsoleLog ''New Call Request: From +15550001111 to +15557654321'',
       Save ''CallLog'',
       Respond \<lparr>status_code = 200, content_type = ''text/xml'',
                res_body = Xml [Dial (Some ''+15550001111'') (Some ''+15557654321'')]\<rparr>,
       ConsoleError '' Failed to save call log:'' (Some (DuplicateKey ''CA123''))],
      \<lparr>connected = True,
       callLogs = [\<lparr>cl_id = Some ''CA123'', phoneNumber = Some ''+15551234567'',
                    status = Some ''initiated'', duration = None, cl_timestamp = 1\<rparr>],
       objections = []\<rparr>)"
  using duplicate_CallSid_keeps_first_record [of
      "voice_request (Text ''+15551234567'') (Some ''CA123'')"
      "\<lparr>To = Text ''+15551234567'', CallSid = Some ''CA123''\<rparr>"
      "voice_request (Text ''+15557654321'') (Some ''CA123'')"
      "\<lparr>To = Text ''+15557654321'', CallSid = Some ''CA123''\<rparr>"
      "''CA123''" "''+15551234567''" sample_store sample_legal sample_env 2 1]
  by (simp add: sample_defs sample_legal_def voice_defs falsy_def invalid_To_def
      callLogs_with_id_def startsWith_def show_undefined_def)

text \<open>
  The run that refutes claim C1 as it is stated: after \<^verbatim>\<open>CA123\<close> has been routed to
  \<^verbatim>\<open>+15551234567\<close> and then to \<^verbatim>\<open>+15557654321\<close>, the call log under \<^verbatim>\<open>CA123\<close> still
  holds the first number, not the second.
\<close>

theorem duplicate_CallSid_not_overwritten:
  "map phoneNumber (callLogs_with_id ''CA123''
     (snd (post_voice sample_legal sample_env 2
             (voice_request (Text ''+15557654321'') (Some ''CA123''))
       (snd (post_voice sample_legal sample_env 1
               (voice_request (Text ''+15551234567'') (Some ''CA123'')) sample_store)))))
   = [Some ''+15551234567'']
   \<and> map phoneNumber (callLogs_with_id ''CA123''
     (snd (post_voice sample_legal sample_env 2
             (voice_request (Text ''+15557654321'') (Some ''CA123''))
       (snd (post_voice sample_legal sample_env 1
               (voice_request (Text ''+15551234567'') (Some ''CA123'')) sample_store)))))
   \<noteq> [Some ''+15557654321'']"
  by (simp add: sample_defs sample_legal_def voice_defs falsy_def invalid_To_def
      callLogs_with_id_def startsWith_def)

text \<open>
  Claim C6, as amended. The claim: every request to \<^verbatim>\<open>POST /voice\<close> is answered 200.
  A request whose \<^verbatim>\<open>To\<close> is nested is not: line 110 throws, and the framework
  answers 500. What holds, for every request that the body parsers hand to the
  handler with a \<^verbatim>\<open>To\<close> that is a text or absent, when the builder of the document
  takes the configured phone number and \<^verbatim>\<open>To\<close>: the one answer is 200, \<^verbatim>\<open>text/xml\<close>,
  a dial document whose caller-id is the configured phone number and whose number
  is \<^verbatim>\<open>To\<close> (none when \<^verbatim>\<open>To\<close> is absent), whatever the call identifier and the
  store are; a \<^verbatim>\<open>To\<close> that is absent, empty or client-prefixed is logged as invalid,
  exactly then; and a write that fails is logged with its error and leaves the
  store as it was.
\<close>

theorem voice_always_routes_text_To:
  assumes "body_parsers req = Inr (Some b)" and "To b \<noteq> Nested"
    and "accepts legal (TWILIO_PHONE_NUMBER env)" and "accepts legal (text_of (To b))"
  shows "responses (fst (post_voice legal env now req w)) =
      [\<lparr>status_code = 200, content_type = ''text/xml'',
        res_body = Xml [Dial (TWILIO_PHONE_NUMBER env) (text_of (To b))]\<rparr>]
    \<and> (case To b of
          Text s \<Rightarrow> s = [] \<or> startsWith s ''client:''
        | _ \<Rightarrow> True) =
       (ConsoleError ''Invalid 'To' number.'' None \<in> set (fst (post_voice legal env now req w)))
    \<and> (case save_callLog \<lparr>cl_id = CallSid b, phoneNumber = text_of (To b),
                           status = Some ''initiated'', duration = None, cl_timestamp = now\<rparr> w of
          Inl e \<Rightarrow> ConsoleError '' Failed to save call log:'' (Some e)
                     \<in> set (fst (post_voice legal env now req w))
                   \<and> snd (post_voice legal env now req w) = w
        | Inr w' \<Rightarrow> snd (post_voice legal env now req w) = w')"
  using assms
  by (cases "To b")
     (auto simp: post_voice_def voice_handler_def route_def callLog_settled_def invalid_To_def
        dial_def text_of_def accepts_def Let_def split: sum.splits)

theorem voice_always_routes_text_To_witness:
  "post_voice sample_legal sample_env 1 (voice_request (Text ''client:alice'') None) sample_store =
     ([ConsoleError ''Invalid 'To' number.'' None,
       ConsoleLog ''New Call Request: From +15550001111 to client:alice'',
       Save ''CallLog'',
       Respond \<lparr>status_code = 200, content_type = ''text/xml'',
                res_body = Xml [Dial (Some ''+15550001111'') (Some ''client:alice'')]\<rparr>,
       ConsoleError '' Failed to save call log:'' (Some (ValidationError [''_id'']))],
      sample_store)"
  using voice_always_routes_text_To [of "voice_request (Text ''client:alice'') None"
      "\<lparr>To = Text ''client:alice'', CallSid = None\<rparr>" sample_legal sample_env 1 sample_store]
  by (simp add: sample_defs sample_legal_def voice_defs falsy_def invalid_To_def startsWith_def
      show_undefined_def)

text \<open>
  The run that refutes claim C6 as it is stated: a request whose \<^verbatim>\<open>To\<close> is nested
  (\<^verbatim>\<open>To=a&To=b\<close>) is answered once, with status 500.
\<close>

theorem voice_nested_To_answers_500:
  "map status_code (responses (fst (post_voice sample_legal sample_env 1
      (voice_request Nested (Some ''CA123'')) sample_store))) = [500]"
  by (simp add: sample_defs voice_defs error_response_def)

text \<open>
  The other requests that are not answered with the routing document: a body that a
  parser refuses is answered by the parser's error, a request without a body is
  answered 500, and so is one whose \<^verbatim>\<open>To\<close> the builder of the document refuses;
  this last one has started its save by then, and its call log is stored.
\<close>

lemma refused_body_not_routed:
  "post_voice sample_legal sample_env 1 \<lparr>headers = [], query = [], req_body = Refused 413\<rparr>
     sample_store =
     ([Respond \<lparr>status_code = 413, content_type = ''text/html'',
                res_body = Error_page (ParserError 413)\<rparr>], sample_store)
   \<and> map status_code (responses (fst (post_voice sample_legal sample_env 1
        \<lparr>headers = [], query = [], req_body = No_body\<rparr> sample_store))) = [500]"
  by (simp add: sample_defs voice_defs parser_response_def error_response_def)

lemma oversized_body_not_routed:
  "102400 < length t + n \<or> 1000 < k \<Longrightarrow>
   post_voice legal env now
     \<lparr>headers = hs, query = q, req_body = Parsed n k \<lparr>To = Text t, CallSid = None\<rparr>\<rparr> w =
     ([Respond \<lparr>status_code = 413, content_type = ''text/html'',
                res_body = Error_page (ParserError 413)\<rparr>], w)"
  by (auto simp: post_voice_def body_parsers_def body_limit_def parameter_limit_def
      text_bytes_def text_of_def parser_response_def)

lemma refused_character_answers_500:
  "map status_code (responses (fst (post_voice sample_legal sample_env 1
      (voice_request (Text [CHR 0x01]) (Some ''CA123'')) sample_store))) = [500]
   \<and> map phoneNumber (callLogs (snd (post_voice sample_legal sample_env 1
      (voice_request (Text [CHR 0x01]) (Some ''CA123'')) sample_store))) = [Some [CHR 0x01]]"
  by (simp add: sample_defs sample_legal_def voice_defs falsy_def invalid_To_def startsWith_def
      error_response_def)




subsection \<open>Objection bridge\<close>

text \<open>
  Claim C3. When the call of the completion service fails (its promise rejects), the
  one suggestion emitted goes to the connection the message came from and is exactly
  \<^verbatim>\<open>Failed to generate suggestion.\<close>; nothing is saved, and the store is as it was.
\<close>

theorem completion_failure_emits_failure_text:
  assumes "service (completion_request_for m) = Rejected e"
  shows "suggestions (fst (on_objection service now sock m w)) =
           [(sock, Some ''Failed to generate suggestion.'')]
       \<and> outside_calls (fst (on_objection service now sock m w)) =
           [CompletionCall (completion_request_for m)]
       \<and> snd (on_objection service now sock m w) = w"
  using assms by (simp add: on_objection_def catch_block_def Let_def)

theorem completion_failure_emits_failure_text_witness:
  "on_objection (\<lambda>r. Rejected (ServiceError ''503'')) 5 7 ''price is too high'' sample_store =
     ([ConsoleLog ''Processing Objection: price is too high'',
       CompletionCall (completion_request_for ''price is too high''),
       ConsoleError ''Failed to generate AI suggestion:'' (Some (ServiceError ''503'')),
       Emit 7 ''suggestion'' (Some ''Failed to generate suggestion.'')],
      sample_store)"
  using completion_failure_emits_failure_text [of "\<lambda>r. Rejected (ServiceError ''503'')"
      "''price is too high''" "ServiceError ''503''" 5 7 sample_store]
  by (simp add: on_objection_def catch_block_def Let_def)

text \<open>
  Claim C5. When the completion service answers the message \<open>m\<close> with a first choice
  of content \<open>c\<close>, the handler saves the objection \<open>(m, c)\<close> and awaits the save.
  The save goes through exactly when \<open>m\<close> and \<open>c\<close> are non-empty texts and the store
  is connected. Then the store has gained that one objection, whose message is the
  input and whose response is the suggestion emitted, and the events are, in this
  order: the log line, the completion call, the log line, the save, the emission of
  \<open>c\<close> on the connection the message came from. When the save fails, the round
  trip fails as a whole: the failure text is emitted instead, and the store is as it
  was. Nothing is broadcast in either case.
\<close>

theorem objection_saved_before_emitted:
  assumes "service (completion_request_for m) = Resolved (Choice c # rest)"
  shows "((\<exists>w'. save_objection \<lparr>message = Some m, response = c, ob_timestamp = now\<rparr> w = Inr w')
            = (m \<noteq> [] \<and> \<not> falsy c \<and> connected w))
       \<and> (if m \<noteq> [] \<and> \<not> falsy c \<and> connected w
           then on_objection service now sock m w =
                  ([ConsoleLog (''Processing Objection: '' @ m),
                    CompletionCall (completion_request_for m),
                    ConsoleLog ('' AI Suggestion: '' @ show_null c),
                    Save ''Objection'',
                    Emit sock ''suggestion'' c],
                   w\<lparr>objections := objections w @
                        [\<lparr>message = Some m, response = c, ob_timestamp = now\<rparr>]\<rparr>)
           else suggestions (fst (on_objection service now sock m w)) =
                  [(sock, Some ''Failed to generate suggestion.'')]
                \<and> snd (on_objection service now sock m w) = w)
       \<and> broadcasts (fst (on_objection service now sock m w)) = []"
  using assms by (auto simp: objection_defs falsy_def Let_def split: option.splits)

theorem objection_saved_before_emitted_witness:
  "on_objection (\<lambda>r. Resolved [Choice (Some ''Compare it with the cost of waiting.'')])
      5 7 ''price is too high'' sample_store =
     ([ConsoleLog ''Processing Objection: price is too high'',
       CompletionCall (completion_request_for ''price is too high''),
       ConsoleLog '' AI Suggestion: Compare it with the cost of waiting.'',
       Save ''Objection'',
       Emit 7 ''suggestion'' (Some ''Compare it with the cost of waiting.'')],
      \<lparr>connected = True, callLogs = [],
       objections = [\<lparr>message = Some ''price is too high'',
                       response = Some ''Compare it with the cost of waiting.'',
                       ob_timestamp = 5\<rparr>]\<rparr>)"
  using objection_saved_before_emitted [of
      "\<lambda>r. Resolved [Choice (Some ''Compare it with the cost of waiting.'')]"
      "''price is too high''" "Some ''Compare it with the cost of waiting.''" "[]"
      5 sample_store 7]
  by (simp add: sample_defs falsy_def show_null_def)

text \<open>
  Claim C8. Whatever the message, the store and the answer of the completion service
  are, the handler emits exactly one suggestion, on the connection the message came
  from, and broadcasts nothing. Every failure on the way is caught and gives the
  failure text as that one suggestion: a rejected completion call, a completion
  without choices, a first choice without content (its save is rejected by the
  validation of the required \<^verbatim>\<open>response\<close>), and any other rejected save. Otherwise
  the suggestion is the content of the first choice.
\<close>

theorem one_suggestion_per_objection:
  "length (suggestions (fst (on_objection service now sock m w))) = 1
   \<and> fst ` set (suggestions (fst (on_objection service now sock m w))) = {sock}
   \<and> broadcasts (fst (on_objection service now sock m w)) = []
   \<and> (case service (completion_request_for m) of
        Rejected e \<Rightarrow>
          suggestions (fst (on_objection service now sock m w)) =
            [(sock, Some ''Failed to generate suggestion.'')]
      | Resolved [] \<Rightarrow>
          suggestions (fst (on_objection service now sock m w)) =
            [(sock, Some ''Failed to generate suggestion.'')]
      | Resolved (Choice c # rest) \<Rightarrow>
          (if m \<noteq> [] \<and> c \<noteq> None \<and> c \<noteq> Some [] \<and> connected w
           then suggestions (fst (on_objection service now sock m w)) = [(sock, c)]
           else suggestions (fst (on_objection service now sock m w)) =
                  [(sock, Some ''Failed to generate suggestion.'')]))"
  by (auto simp: objection_defs falsy_def Let_def
      split: completion.splits list.splits choice.splits option.splits sum.splits)

theorem one_suggestion_per_objection_witness:
  "suggestions (fst (on_objection (\<lambda>r. Resolved [Choice None]) 5 7 ''price is too high''
      sample_store)) = [(7, Some ''Failed to generate suggestion.'')]
   \<and> suggestions (fst (on_objection (\<lambda>r. Resolved []) 5 7 ''price is too high''
      sample_store)) = [(7, Some ''Failed to generate suggestion.'')]"
  using one_suggestion_per_objection [of "\<lambda>r. Resolved [Choice None]" 5 7
      "''price is too high''" sample_store]
    one_suggestion_per_objection [of "\<lambda>r. Resolved []" 5 7 "''price is too high''" sample_store]
  by simp

end
